theory Spec2Isabelle
  imports Main
begin

section \<open>Resources shared by the models\<close>

text \<open>
  Every resource class extends \<open>Base\<close>, which carries the entity id. The field is
  called \<open>id'\<close> here because \<open>id\<close> is the identity function of HOL.
\<close>

record Base =
  id' :: string

text \<open>
  Errors are values. \<open>InteractionAlreadyAcknowledged\<close> and
  \<open>InteractionNoAcknowledged\<close> are the two names given to \<open>MakeError\<close> in
  \<open>Interaction.ts\<close>; \<open>MessageNotResolved\<close> is
  \<open>new Error("Message not resolved")\<close> of \<open>Message.ts\<close>; \<open>TypeError\<close> is what
  JavaScript raises for a method call on \<open>null\<close>; \<open>Rejected e\<close> is a rejection \<open>e\<close>
  of an awaited call into a collaborator (the REST client, the HTTP response).
\<close>

datatype 'e error =
    InteractionAlreadyAcknowledged
  | InteractionNoAcknowledged
  | MessageNotResolved
  | TypeError
  | Rejected 'e

section \<open>The interaction factory (\<open>Interaction.from\<close>)\<close>

text \<open>
  The members of \<open>InteractionType\<close> (discord-api-types/v10) that \<open>Interaction.from\<close>
  names, with their wire values. The \<open>type\<close> field of a payload is a number, so it is
  an \<open>int\<close> here: a payload may carry a value that is no member of the enum.
\<close>

definition ApplicationCommand :: int where
  "ApplicationCommand = 2"

definition MessageComponent :: int where
  "MessageComponent = 3"

definition ApplicationCommandAutocomplete :: int where
  "ApplicationCommandAutocomplete = 4"

definition ModalSubmit :: int where
  "ModalSubmit = 5"

text \<open>
  The wire payload \<open>APIInteraction\<close>: the fields the base constructor reads, and
  \<open>other_fields\<close> for everything else the payload carries (\<open>data\<close>, \<open>guild_id\<close>,
  \<open>channel\<close>, \<open>member\<close>, \<open>message\<close>, \<open>locale\<close>, ...).
\<close>

record 'd APIInteraction =
  interaction_id :: string
  application_id :: string
  interaction_type :: int
  interaction_token :: string
  interaction_version :: int
  other_fields :: 'd

text \<open>
  What \<open>Interaction.from(data, res)\<close> evaluates: one \<open>new\<close> expression, recorded
  with the class it names and the arguments it passes. The default branch passes
  \<open>data\<close> alone.
\<close>

datatype ('d, 'h) Interaction =
    CommandInteraction "'d APIInteraction" "'h option"
  | ComponentInteraction "'d APIInteraction" "'h option"
  | AutocompleteInteraction "'d APIInteraction" "'h option"
  | ModalSubmitInteraction "'d APIInteraction" "'h option"
  | BaseInteraction "'d APIInteraction"

definition Interaction_from ::
  "'d APIInteraction \<Rightarrow> 'h option \<Rightarrow> ('d, 'h) Interaction" where
  "Interaction_from data res =
     (if interaction_type data = ApplicationCommand then CommandInteraction data res
      else if interaction_type data = MessageComponent then ComponentInteraction data res
      else if interaction_type data = ApplicationCommandAutocomplete
        then AutocompleteInteraction data res
      else if interaction_type data = ModalSubmit then ModalSubmitInteraction data res
      else BaseInteraction data)"

text \<open>The class of the constructed object, without its arguments.\<close>

datatype variant =
  Command | Component | Autocomplete | ModalSubmitted | Plain

fun variant_of :: "('d, 'h) Interaction \<Rightarrow> variant" where
  "variant_of (CommandInteraction _ _) = Command"
| "variant_of (ComponentInteraction _ _) = Component"
| "variant_of (AutocompleteInteraction _ _) = Autocomplete"
| "variant_of (ModalSubmitInteraction _ _) = ModalSubmitted"
| "variant_of (BaseInteraction _) = Plain"

section \<open>Acknowledgement of replyable interactions\<close>

text \<open>
  \<open>ReplyableInteraction extends Interaction extends Base\<close>. \<open>_http\<close> is present
  exactly when \<open>isHTTP\<close> holds (the constructor sets \<open>isHTTP = Boolean(httpResponse)\<close>),
  so the record keeps the flag only.
\<close>

record InteractionFields = Base +
  applicationId :: string
  interactionType :: int
  token :: string
  version :: int

record ReplyableInteraction = InteractionFields +
  isHTTP :: bool
  acknowledged :: bool

definition new_ReplyableInteraction ::
  "'d APIInteraction \<Rightarrow> 'h option \<Rightarrow> ReplyableInteraction" where
  "new_ReplyableInteraction data httpResponse =
     \<lparr> id' = interaction_id data,
       applicationId = application_id data,
       interactionType = interaction_type data,
       token = interaction_token data,
       version = interaction_version data,
       isHTTP = (httpResponse \<noteq> None),
       acknowledged = False \<rparr>"

text \<open>
  \<open>InteractionResponseType\<close> members used by the two responders, and the calls they
  await: \<open>this._http.send(body, type)\<close> or
  \<open>this._client.rest.respondInteraction(id, token, body, type)\<close>. A body is either
  the \<open>{flags}\<close> object of \<open>defer\<close> or the transformed post data of \<open>reply\<close>.
\<close>

datatype InteractionResponseType =
  ChannelMessageWithSource | DeferredChannelMessageWithSource

datatype 'c body =
  Flags nat | PostData 'c

datatype 'c call =
    HttpSend "'c body" InteractionResponseType
  | RespondInteraction string string "'c body" InteractionResponseType

text \<open>
  The collaborator is a parameter: \<open>transport call\<close> is \<open>None\<close> when the awaited
  call resolves and \<open>Some e\<close> when it rejects with \<open>e\<close>. Each responder returns what
  the caller sees (\<open>Inl\<close> an error thrown, \<open>Inr ()\<close> a normal return) and the
  interaction afterwards.
\<close>

definition respond ::
  "('c call \<Rightarrow> 'e option) \<Rightarrow> ReplyableInteraction \<Rightarrow> 'c body \<Rightarrow>
     InteractionResponseType \<Rightarrow> 'e option" where
  "respond transport this b t =
     (if isHTTP this then transport (HttpSend b t)
      else transport (RespondInteraction (id' this) (token this) b t))"

definition Interaction_defer ::
  "('c call \<Rightarrow> 'e option) \<Rightarrow> ReplyableInteraction \<Rightarrow> nat option \<Rightarrow>
     ('e error + unit) \<times> ReplyableInteraction" where
  "Interaction_defer transport this flags =
     (if acknowledged this then (Inl InteractionAlreadyAcknowledged, this)
      else
        (case respond transport this
                (Flags (case flags of None \<Rightarrow> 0 | Some f \<Rightarrow> f))
                DeferredChannelMessageWithSource of
           Some e \<Rightarrow> (Inl (Rejected e), this)
         | None \<Rightarrow> (Inr (), this\<lparr>acknowledged := True\<rparr>)))"

text \<open>
  \<open>transformMessagePostData\<close> (utils) is not part of the sources; it is the
  parameter \<open>transform\<close>, a function from the caller's content to the body sent.
\<close>

definition Interaction_reply ::
  "('a \<Rightarrow> 'c) \<Rightarrow> ('c call \<Rightarrow> 'e option) \<Rightarrow> ReplyableInteraction \<Rightarrow> 'a \<Rightarrow>
     ('e error + unit) \<times> ReplyableInteraction" where
  "Interaction_reply transform transport this content =
     (if acknowledged this then (Inl InteractionAlreadyAcknowledged, this)
      else
        (case respond transport this (PostData (transform content))
                ChannelMessageWithSource of
           Some e \<Rightarrow> (Inl (Rejected e), this)
         | None \<Rightarrow> (Inr (), this\<lparr>acknowledged := True\<rparr>)))"

text \<open>
  The three follow-up operations check the flag first and then call the REST client,
  whose methods are parameters: \<open>Inl e\<close> when the call rejects with \<open>e\<close>, \<open>Inr r\<close>
  when it resolves with \<open>r\<close>. \<open>getOriginalReply\<close> builds a \<open>Message\<close> from the raw
  result (channel lookup in the cache, guild resolution); that step is the parameter
  \<open>resolveMessage\<close>, which can fail as well. None of the three writes a field of the
  interaction.
\<close>

definition settled :: "'e + 'r \<Rightarrow> 'e error + 'r" where
  "settled outcome = (case outcome of Inl e \<Rightarrow> Inl (Rejected e) | Inr r \<Rightarrow> Inr r)"

definition deleteReply ::
  "(string \<Rightarrow> string \<Rightarrow> string \<Rightarrow> 'e + 'r) \<Rightarrow> ReplyableInteraction \<Rightarrow> string \<Rightarrow>
     'e error + 'r" where
  "deleteReply deleteWebhookMessage this messageId =
     (if \<not> acknowledged this then Inl InteractionNoAcknowledged
      else settled (deleteWebhookMessage (applicationId this) (token this) messageId))"

definition createFollowUP ::
  "('a \<Rightarrow> 'c) \<Rightarrow> (string \<Rightarrow> string \<Rightarrow> 'c \<Rightarrow> 'e + 'r) \<Rightarrow> ReplyableInteraction \<Rightarrow> 'a \<Rightarrow>
     'e error + 'r" where
  "createFollowUP transform executeWebhook this content =
     (if \<not> acknowledged this then Inl InteractionNoAcknowledged
      else settled (executeWebhook (applicationId this) (token this) (transform content)))"

definition getOriginalReply ::
  "(string \<Rightarrow> string \<Rightarrow> string \<Rightarrow> 'e + 'w) \<Rightarrow> ('w \<Rightarrow> 'e + 'r) \<Rightarrow> ReplyableInteraction \<Rightarrow>
     'e error + 'r" where
  "getOriginalReply getWebhookMessage resolveMessage this =
     (if \<not> acknowledged this then Inl InteractionNoAcknowledged
      else
        (case getWebhookMessage (applicationId this) (token this) ''@original'' of
           Inl e \<Rightarrow> Inl (Rejected e)
         | Inr rawMessage \<Rightarrow> settled (resolveMessage rawMessage)))"

section \<open>Replying to a message (\<open>Message.reply\<close>)\<close>

text \<open>
  \<open>MessagePostData\<close> is the body of a create-message request. The model keeps the two
  fields \<open>reply\<close> touches and \<open>other_post_fields\<close> for the rest (\<open>embeds\<close>,
  \<open>files\<close>, \<open>components\<close>, ...); an absent field is \<open>None\<close>.
\<close>

record APIMessageReference =
  message_id :: "string option"
  channel_id :: "string option"
  guild_id :: "string option"
  fail_if_not_exists :: "bool option"

record 'a MessagePostData =
  content :: "string option"
  message_reference :: "APIMessageReference option"
  other_post_fields :: "'a option"

text \<open>
  The fields of a \<open>Message\<close> that \<open>reply\<close> and \<open>_resolve\<close> read or write.
  \<open>isResolved\<close> is the public flag of \<open>packages/darkcord\<close> and the private
  \<open>#resolved\<close> of \<open>src/resources\<close>. \<open>messageType\<close> is the \<open>type\<close> field, with
  the two \<open>MessageType\<close> members (discord-api-types/v10) that \<open>reply\<close> names.
\<close>

record 'c Message = Base +
  channelId :: string
  channel :: "'c option"
  messageType :: int
  isResolved :: bool

definition MessageType_Default :: int where
  "MessageType_Default = 0"

definition MessageType_Reply :: int where
  "MessageType_Reply = 19"

text \<open>
  Both versions of \<open>reply\<close> share these statements: create the reference when the
  caller gave none, then assign \<open>channel_id\<close> and \<open>message_id\<close>.
\<close>

definition reference_this :: "'c Message \<Rightarrow> 'a MessagePostData \<Rightarrow> 'a MessagePostData" where
  "reference_this this c =
     (let r = (case message_reference c of
                 None \<Rightarrow> \<lparr> message_id = Some (id' this), channel_id = None,
                           guild_id = None, fail_if_not_exists = None \<rparr>
               | Some given \<Rightarrow> given)
      in c\<lparr>message_reference :=
              Some (r\<lparr>channel_id := Some (channelId this), message_id := Some (id' this)\<rparr>)\<rparr>)"

text \<open>
  What a call of \<open>reply\<close> comes to: it returns \<open>undefined\<close> without sending, it
  throws, or it calls \<open>createMessage\<close> of a channel with a body.
\<close>

datatype ('c, 'a, 'e) reply_result =
    Undefined
  | Threw "'e error"
  | CreateMessage 'c "'a MessagePostData"

text \<open>\<open>packages/darkcord/src/resources/Message.ts\<close>: the content may be a string.\<close>

definition Message_reply ::
  "'c Message \<Rightarrow> string + 'a MessagePostData \<Rightarrow> ('c, 'a, 'e) reply_result" where
  "Message_reply this given =
     (if messageType this \<noteq> MessageType_Reply \<and> messageType this \<noteq> MessageType_Default
      then Undefined
      else
        (let c = (case given of
                    Inl s \<Rightarrow> \<lparr> content = Some s, message_reference = None,
                               other_post_fields = None \<rparr>
                  | Inr d \<Rightarrow> d);
             c' = reference_this this c
         in if \<not> isResolved this then Threw MessageNotResolved
            else (case channel this of
                    None \<Rightarrow> Undefined
                  | Some ch \<Rightarrow> CreateMessage ch c')))"

text \<open>
  \<open>src/resources/Message.ts\<close>: an unresolved message resolves itself first.
  \<open>_resolve\<close> looks the channel up in the cache (\<open>cached\<close>) and fetches it over REST
  when it is not there (\<open>getChannel\<close>, which may reject). It then makes the result a
  \<open>Channel\<close> object, takes over its guild and adds the message to the channel's
  messages; these statements call into classes that are not part of the sources and
  are the parameter \<open>adopt\<close>, which may fail too. Last it stores the channel and sets
  the flag.
\<close>

definition Message_resolve ::
  "(string \<Rightarrow> 'c option) \<Rightarrow> (string \<Rightarrow> 'e + 'c) \<Rightarrow> ('c \<Rightarrow> 'e + 'c) \<Rightarrow> 'c Message \<Rightarrow>
     'e + 'c Message" where
  "Message_resolve cached getChannel adopt this =
     (case (case cached (channelId this) of
              Some ch \<Rightarrow> Inr ch
            | None \<Rightarrow> getChannel (channelId this)) of
        Inl e \<Rightarrow> Inl e
      | Inr ch \<Rightarrow>
          (case adopt ch of
             Inl e \<Rightarrow> Inl e
           | Inr ch' \<Rightarrow> Inr (this\<lparr>channel := Some ch', isResolved := True\<rparr>)))"

definition Message_reply_src ::
  "(string \<Rightarrow> 'c option) \<Rightarrow> (string \<Rightarrow> 'e + 'c) \<Rightarrow> ('c \<Rightarrow> 'e + 'c) \<Rightarrow> 'c Message \<Rightarrow>
     'a MessagePostData \<Rightarrow> ('c, 'a, 'e) reply_result" where
  "Message_reply_src cached getChannel adopt this given =
     (let c' = reference_this this given
      in (case (if \<not> isResolved this then Message_resolve cached getChannel adopt this
                else Inr this) of
            Inl e \<Rightarrow> Threw (Rejected e)
          | Inr this' \<Rightarrow>
              (case channel this' of
                 None \<Rightarrow> Threw TypeError
               | Some ch \<Rightarrow> CreateMessage ch c')))"

section \<open>Reactions of a message and the partial flag\<close>

text \<open>
  \<open>this._client.cache._partial(Partials.Reaction)\<close> reads the client's partial
  configuration. Neither \<open>_partial\<close> nor the enum \<open>Partials\<close> is part of the
  sources, so both are parameters of the functions below: \<open>partial\<close> is the method,
  a predicate on the members of the enum, and \<open>Partials_Reaction\<close> is the member the
  source passes.
\<close>

record APIPartialEmoji =
  emoji_id :: "string option"
  emoji_name :: "string option"

record APIReaction =
  reaction_count :: nat
  me :: bool
  emoji :: APIPartialEmoji

text \<open>
  A cached reaction is \<open>Reaction | APIReaction\<close>: the raw wire record, or the object
  \<open>new Reaction({...reaction, client})\<close> built from it (class \<open>Reaction\<close> itself is not
  part of the sources; the object is represented by the record it was built from).
\<close>

datatype cached_reaction =
  Raw APIReaction | Hydrated APIReaction

fun wire_record :: "cached_reaction \<Rightarrow> APIReaction" where
  "wire_record (Raw r) = r"
| "wire_record (Hydrated r) = r"

fun is_raw :: "cached_reaction \<Rightarrow> bool" where
  "is_raw (Raw _) = True"
| "is_raw (Hydrated _) = False"

text \<open>
  The reaction cache is written through \<open>_add(item, replace, id)\<close> only. Its code is
  not part of the sources, so the cache is represented by the calls it received, in
  order; an argument that a call leaves out is \<open>None\<close>.
\<close>

record add_call =
  item :: cached_reaction
  replace :: "bool option"
  add_key :: "string option"

definition resolved_reaction :: "('p \<Rightarrow> bool) \<Rightarrow> 'p \<Rightarrow> APIReaction \<Rightarrow> cached_reaction" where
  "resolved_reaction partial Partials_Reaction reaction =
     (if partial Partials_Reaction then Raw reaction else Hydrated reaction)"

definition reaction_key :: "cached_reaction \<Rightarrow> string option" where
  "reaction_key resolved =
     (case emoji_id (emoji (wire_record resolved)) of
        Some i \<Rightarrow> Some i
      | None \<Rightarrow> emoji_name (emoji (wire_record resolved)))"

text \<open>The loop of the constructor in \<open>src/resources/Message.ts\<close>: \<open>_add(value)\<close>.\<close>

primrec constructor_loop ::
  "('p \<Rightarrow> bool) \<Rightarrow> 'p \<Rightarrow> APIReaction list \<Rightarrow> add_call list \<Rightarrow> add_call list" where
  "constructor_loop partial Partials_Reaction [] reactions = reactions"
| "constructor_loop partial Partials_Reaction (reaction # rest) reactions =
     constructor_loop partial Partials_Reaction rest
       (reactions @ [\<lparr> item = resolved_reaction partial Partials_Reaction reaction,
                       replace = None, add_key = None \<rparr>])"

text \<open>
  The loop of \<open>_update\<close> in \<open>packages/darkcord\<close>: \<open>_add(resolved, true, key)\<close>.
\<close>

primrec update_loop ::
  "('p \<Rightarrow> bool) \<Rightarrow> 'p \<Rightarrow> APIReaction list \<Rightarrow> add_call list \<Rightarrow> add_call list" where
  "update_loop partial Partials_Reaction [] reactions = reactions"
| "update_loop partial Partials_Reaction (reaction # rest) reactions =
     update_loop partial Partials_Reaction rest
       (reactions @ [\<lparr> item = resolved_reaction partial Partials_Reaction reaction,
                       replace = Some True,
                       add_key = reaction_key (resolved_reaction partial Partials_Reaction reaction) \<rparr>])"

text \<open>
  \<open>data.reactions\<close> is \<open>None\<close> when the payload has no array there
  (\<open>Array.isArray\<close> fails). The constructor starts from \<open>new Cache()\<close>; \<open>_update\<close>
  adds to the cache the message has. The other assignments of both functions do not
  touch \<open>reactions\<close>.
\<close>

definition Message_constructor_reactions ::
  "('p \<Rightarrow> bool) \<Rightarrow> 'p \<Rightarrow> APIReaction list option \<Rightarrow> add_call list" where
  "Message_constructor_reactions partial Partials_Reaction data_reactions =
     (case data_reactions of
        None \<Rightarrow> []
      | Some rs \<Rightarrow> constructor_loop partial Partials_Reaction rs [])"

definition Message_update_reactions ::
  "('p \<Rightarrow> bool) \<Rightarrow> 'p \<Rightarrow> APIReaction list option \<Rightarrow> add_call list \<Rightarrow> add_call list" where
  "Message_update_reactions partial Partials_Reaction data_reactions reactions =
     (case data_reactions of
        None \<Rightarrow> reactions
      | Some rs \<Rightarrow> update_loop partial Partials_Reaction rs reactions)"

text \<open>
  \<open>createReaction\<close>, once the REST call has returned the raw reaction: hydrate it
  unless the type is partial, then \<open>_add(reaction, true, key)\<close>. The key is
  \<open>reaction.emoji.id ?? reaction.emoji.name\<close> in \<open>packages/darkcord\<close> and
  \<open>reaction.emoji.id\<close> in \<open>src/resources\<close>.
\<close>

definition Message_createReaction ::
  "('p \<Rightarrow> bool) \<Rightarrow> 'p \<Rightarrow> APIReaction \<Rightarrow> add_call list \<Rightarrow> add_call list" where
  "Message_createReaction partial Partials_Reaction returned reactions =
     reactions @ [\<lparr> item = resolved_reaction partial Partials_Reaction returned,
                     replace = Some True,
                     add_key = reaction_key
                       (resolved_reaction partial Partials_Reaction returned) \<rparr>]"

definition Message_createReaction_src ::
  "('p \<Rightarrow> bool) \<Rightarrow> 'p \<Rightarrow> APIReaction \<Rightarrow> add_call list \<Rightarrow> add_call list" where
  "Message_createReaction_src partial Partials_Reaction returned reactions =
     reactions @ [\<lparr> item = resolved_reaction partial Partials_Reaction returned,
                     replace = Some True,
                     add_key = emoji_id (emoji (wire_record
                       (resolved_reaction partial Partials_Reaction returned))) \<rparr>]"

text \<open>
  The life of one message of \<open>packages/darkcord\<close>: the constructor calls
  \<open>_update(data)\<close> on an empty cache, and later payloads and created reactions follow.
\<close>

datatype message_event =
  Update "APIReaction list option" | CreateReaction APIReaction

fun message_step ::
  "('p \<Rightarrow> bool) \<Rightarrow> 'p \<Rightarrow> add_call list \<Rightarrow> message_event \<Rightarrow> add_call list" where
  "message_step partial Partials_Reaction reactions (Update data_reactions) =
     Message_update_reactions partial Partials_Reaction data_reactions reactions"
| "message_step partial Partials_Reaction reactions (CreateReaction returned) =
     Message_createReaction partial Partials_Reaction returned reactions"

definition message_reactions ::
  "('p \<Rightarrow> bool) \<Rightarrow> 'p \<Rightarrow> APIReaction list option \<Rightarrow> message_event list \<Rightarrow>
     add_call list" where
  "message_reactions partial Partials_Reaction data_reactions events =
     foldl (message_step partial Partials_Reaction)
       (Message_update_reactions partial Partials_Reaction data_reactions []) events"

text \<open>
  The life of one message of \<open>src/resources\<close>: the constructor's loop, and the
  reactions created later.
\<close>

definition message_reactions_src ::
  "('p \<Rightarrow> bool) \<Rightarrow> 'p \<Rightarrow> APIReaction list option \<Rightarrow> APIReaction list \<Rightarrow> add_call list" where
  "message_reactions_src partial Partials_Reaction data_reactions created =
     foldl (\<lambda>reactions returned.
              Message_createReaction_src partial Partials_Reaction returned reactions)
       (Message_constructor_reactions partial Partials_Reaction data_reactions) created"

text \<open>
  Every item handed to the cache has the form the flag of the \<open>Reaction\<close> type asks
  for: the invariant of the loops above.
\<close>

definition same_form :: "('p \<Rightarrow> bool) \<Rightarrow> 'p \<Rightarrow> add_call list \<Rightarrow> bool" where
  "same_form partial Partials_Reaction calls =
     list_all (\<lambda>a. is_raw (item a) = partial Partials_Reaction) calls"

section \<open>The bounded cache collection\<close>

text \<open>
  Modelled from the spec: the cache classes (\<open>Cache\<close>, \<open>DataCache\<close>,
  \<open>CacheManager\<close>) are not part of the sources; only the declarations
  \<open>BaseCacheOptions\<close>, \<open>BaseCacheSweeper\<close> and \<open>CacheAdapter\<close> are. A
  \<open>CacheEntry\<close> has a key, a value and the time of its insertion.
\<close>

record 'v CacheEntry =
  entry_key :: string
  entry_value :: 'v
  insertedAt :: nat

text \<open>
  Modelled from the spec: a \<open>CacheCollection\<close> has \<open>maxSize\<close> (a number, or
  \<open>None\<close> for unbounded) and a storage that is an ordered key to entry mapping in
  insertion order, the oldest entry first.
\<close>

record 'v CacheCollection =
  maxSize :: "nat option"
  storage :: "'v CacheEntry list"

text \<open>Modelled from the spec: a collection starts without entries.\<close>

definition empty_collection :: "nat option \<Rightarrow> 'v CacheCollection" where
  "empty_collection m = \<lparr> maxSize = m, storage = [] \<rparr>"

text \<open>Modelled from the spec: \<open>size\<close> of the contract, the number of entries.\<close>

definition cache_size :: "'v CacheCollection \<Rightarrow> nat" where
  "cache_size c = length (storage c)"

text \<open>Modelled from the spec: \<open>keys()\<close> of the contract, in insertion order.\<close>

definition cache_keys :: "'v CacheCollection \<Rightarrow> string list" where
  "cache_keys c = map entry_key (storage c)"

text \<open>Modelled from the spec: \<open>has(key)\<close> of the contract.\<close>

definition cache_has :: "'v CacheCollection \<Rightarrow> string \<Rightarrow> bool" where
  "cache_has c k = (k \<in> set (cache_keys c))"

text \<open>
  Modelled from the spec: eviction removes the oldest entry by insertion order, the
  first of the storage; an empty storage has none to remove.
\<close>

definition evict_oldest :: "'v CacheEntry list \<Rightarrow> 'v CacheEntry list" where
  "evict_oldest es = (case es of [] \<Rightarrow> [] | oldest # younger \<Rightarrow> younger)"

text \<open>
  Modelled from the spec: an update of an existing key overwrites the value and
  leaves \<open>insertedAt\<close> and the position of the entry unchanged.
\<close>

primrec overwrite :: "string \<Rightarrow> 'v \<Rightarrow> 'v CacheEntry list \<Rightarrow> 'v CacheEntry list" where
  "overwrite k v [] = []"
| "overwrite k v (e # es) =
     (if entry_key e = k then e\<lparr>entry_value := v\<rparr> # overwrite k v es
      else e # overwrite k v es)"

text \<open>
  Modelled from the spec: the insert algorithm \<open>set(key, value)\<close>. If the key
  exists, overwrite the value; if the collection is at \<open>maxSize\<close> and the key is
  new, evict the oldest entry before inserting. A new entry is stamped with the
  current time \<open>now\<close> and becomes the youngest. A collection that is at \<open>maxSize\<close>
  and has no entry is one with \<open>maxSize = 0\<close>: the algorithm names no entry to evict
  there, and the spec's invariant \<open>size <= maxSize\<close> after every insert leaves room
  for none, so nothing is stored.
\<close>

definition cache_set :: "nat \<Rightarrow> string \<Rightarrow> 'v \<Rightarrow> 'v CacheCollection \<Rightarrow> 'v CacheCollection" where
  "cache_set now k v c =
     (if cache_has c k then c\<lparr>storage := overwrite k v (storage c)\<rparr>
      else if maxSize c = Some (cache_size c) then
        (if storage c = [] then c
         else c\<lparr>storage := evict_oldest (storage c)
                 @ [\<lparr> entry_key = k, entry_value = v, insertedAt = now \<rparr>]\<rparr>)
      else c\<lparr>storage := storage c
                @ [\<lparr> entry_key = k, entry_value = v, insertedAt = now \<rparr>]\<rparr>)"

text \<open>
  Modelled from the spec: \<open>delete(key)\<close> of the contract removes the entry of the
  key, if there is one.
\<close>

definition cache_delete :: "string \<Rightarrow> 'v CacheCollection \<Rightarrow> 'v CacheCollection" where
  "cache_delete k c = c\<lparr>storage := filter (\<lambda>e. entry_key e \<noteq> k) (storage c)\<rparr>"

text \<open>
  Modelled from the spec: the sweep algorithm. Iterate all entries and remove any
  entry for which \<open>filter(entry)\<close> is true and \<open>keepFilter(entry)\<close> is false. The
  parameter \<open>flt\<close> is the sweeper's \<open>filter\<close>.
\<close>

primrec sweep_entries ::
  "('v CacheEntry \<Rightarrow> bool) \<Rightarrow> ('v CacheEntry \<Rightarrow> bool) \<Rightarrow> 'v CacheEntry list \<Rightarrow>
     'v CacheEntry list" where
  "sweep_entries flt keepFilter [] = []"
| "sweep_entries flt keepFilter (e # es) =
     (if flt e \<and> \<not> keepFilter e then sweep_entries flt keepFilter es
      else e # sweep_entries flt keepFilter es)"

text \<open>
  Modelled from the spec: a sweep of a collection rewrites its storage. \<open>flt\<close> and
  \<open>keepFilter\<close> are the answers the sweeper's two callbacks give during this run; a
  callback that reads the clock, as an age filter does, is another predicate on a
  later run.
\<close>

definition sweep ::
  "('v CacheEntry \<Rightarrow> bool) \<Rightarrow> ('v CacheEntry \<Rightarrow> bool) \<Rightarrow> 'v CacheCollection \<Rightarrow>
     'v CacheCollection" where
  "sweep flt keepFilter c = c\<lparr>storage := sweep_entries flt keepFilter (storage c)\<rparr>"

text \<open>
  Modelled from the spec: the age filter of the sweep example, entries older than
  \<open>lifetime\<close> at the time \<open>now\<close> of the sweep.
\<close>

definition older_than :: "nat \<Rightarrow> nat \<Rightarrow> 'v CacheEntry \<Rightarrow> bool" where
  "older_than lifetime now e = (insertedAt e + lifetime < now)"

text \<open>
  Modelled from the spec: the life of a collection. An entry is created or updated by
  \<open>set\<close> and removed by explicit delete, by size-based eviction or by sweep; a run
  applies such operations from left to right.
\<close>

datatype 'v operation =
    Set nat string 'v
  | Delete string
  | Sweep "'v CacheEntry \<Rightarrow> bool" "'v CacheEntry \<Rightarrow> bool"

fun perform :: "'v CacheCollection \<Rightarrow> 'v operation \<Rightarrow> 'v CacheCollection" where
  "perform c (Set now k v) = cache_set now k v c"
| "perform c (Delete k) = cache_delete k c"
| "perform c (Sweep flt keepFilter) = sweep flt keepFilter c"

definition run :: "'v operation list \<Rightarrow> 'v CacheCollection \<Rightarrow> 'v CacheCollection" where
  "run ops c = foldl perform c ops"

section \<open>The retry loop of the request dispatcher\<close>

text \<open>
  Modelled from the spec: the request handler is not part of the sources; only
  \<open>RequestHandlerOptions\<close> (with \<open>maxRetry\<close>) is. A response is a success with its
  result, an HTTP 429 with its retry-after duration and global-scope flag, a 5xx or
  network error, or a non-retryable 4xx with status and body.
\<close>

datatype 'r response =
    Success 'r
  | TooManyRequests nat bool
  | ServerError
  | ClientError nat 'r

text \<open>
  Modelled from the spec: the responses the dispatch loop retries, 429 (step 4) and
  5xx or network error (step 5).
\<close>

fun retryable :: "'r response \<Rightarrow> bool" where
  "retryable (TooManyRequests _ _) = True"
| "retryable ServerError = True"
| "retryable (Success _) = False"
| "retryable (ClientError _ _) = False"

text \<open>
  Modelled from the spec: what a dispatcher call ends with: a result, or
  \<open>RetryExhausted\<close>, or an \<open>APIError\<close> carrying status and body.
\<close>

datatype 'r failure =
    RetryExhausted
  | APIError nat 'r

text \<open>
  Modelled from the spec: steps 2 to 6 of the dispatch loop for one request. The
  server is the parameter \<open>server\<close>: \<open>server i\<close> answers the attempt made after \<open>i\<close>
  retries. On success the result is delivered; on a non-retryable 4xx the call fails
  at once; on a 429, 5xx or network error the retry counter is incremented and the
  request is attempted again unless the counter now exceeds \<open>maxRetry\<close>, in which case
  the call fails with \<open>RetryExhausted\<close>. The waits of the loop (for quota, for the
  global gate, for the retry-after duration or the backoff) pass time between two
  attempts and choose none of the branches, so the loop is given without a clock.
  The second component counts the requests sent.
\<close>

function request_loop ::
  "nat \<Rightarrow> (nat \<Rightarrow> 'r response) \<Rightarrow> nat \<Rightarrow> ('r failure + 'r) \<times> nat" where
  "request_loop maxRetry server retries =
     (case server retries of
        Success r \<Rightarrow> (Inr r, Suc retries)
      | ClientError status b \<Rightarrow> (Inl (APIError status b), Suc retries)
      | TooManyRequests retryAfter global \<Rightarrow>
          (if maxRetry < Suc retries then (Inl RetryExhausted, Suc retries)
           else request_loop maxRetry server (Suc retries))
      | ServerError \<Rightarrow>
          (if maxRetry < Suc retries then (Inl RetryExhausted, Suc retries)
           else request_loop maxRetry server (Suc retries)))"
  by pat_completeness auto
termination
  by (relation "measure (\<lambda>(maxRetry, server, retries). Suc maxRetry - retries)") auto

text \<open>Modelled from the spec: a dispatcher call starts with no retry made.\<close>

definition request :: "nat \<Rightarrow> (nat \<Rightarrow> 'r response) \<Rightarrow> ('r failure + 'r) \<times> nat" where
  "request maxRetry server = request_loop maxRetry server 0"

section \<open>Concrete inputs\<close>

text \<open>Inputs on which the theorems below are evaluated.\<close>

definition example_interaction :: "int \<Rightarrow> string \<Rightarrow> string APIInteraction" where
  "example_interaction t extra =
     \<lparr> interaction_id = ''1100'', application_id = ''42'', interaction_type = t,
       interaction_token = ''tok'', interaction_version = 1, other_fields = extra \<rparr>"

definition fresh_interaction :: ReplyableInteraction where
  "fresh_interaction =
     new_ReplyableInteraction (example_interaction 2 ''ping'') (None :: unit option)"

text \<open>A transport that accepts every call, and one that rejects an empty message.\<close>

definition accepts_all :: "string call \<Rightarrow> string option" where
  "accepts_all c = None"

fun refuses_empty :: "string call \<Rightarrow> string option" where
  "refuses_empty (RespondInteraction i t (PostData []) k) = Some ''400 Bad Request''"
| "refuses_empty c = None"

definition plain :: "string \<Rightarrow> string" where
  "plain c = c"

text \<open>A webhook endpoint that answers every call with the message id it was given.\<close>

definition echo_webhook :: "string \<Rightarrow> string \<Rightarrow> string \<Rightarrow> string + string" where
  "echo_webhook application t messageId = Inr messageId"

definition example_message :: "bool \<Rightarrow> string option \<Rightarrow> string Message" where
  "example_message resolved ch =
     \<lparr> id' = ''100'', channelId = ''200'', channel = ch, messageType = 0,
       isResolved = resolved \<rparr>"

definition foreign_reference :: APIMessageReference where
  "foreign_reference =
     \<lparr> message_id = Some ''999'', channel_id = Some ''888'', guild_id = Some ''7'',
       fail_if_not_exists = Some False \<rparr>"

definition example_post :: "unit MessagePostData" where
  "example_post =
     \<lparr> content = Some ''hello'', message_reference = Some foreign_reference,
       other_post_fields = None \<rparr>"

definition own_reference :: APIMessageReference where
  "own_reference =
     \<lparr> message_id = Some ''100'', channel_id = Some ''200'', guild_id = Some ''7'',
       fail_if_not_exists = Some False \<rparr>"

definition nowhere :: "string \<Rightarrow> string option" where
  "nowhere k = None"

definition fetched :: "string \<Rightarrow> string + string" where
  "fetched k = Inr ''general''"

definition adopted :: "string \<Rightarrow> string + string" where
  "adopted ch = Inr ch"

definition thumbs_up :: APIReaction where
  "thumbs_up = \<lparr> reaction_count = 2, me = False,
                 emoji = \<lparr> emoji_id = None, emoji_name = Some ''thumbsup'' \<rparr> \<rparr>"

definition custom_emoji :: APIReaction where
  "custom_emoji = \<lparr> reaction_count = 1, me = True,
                    emoji = \<lparr> emoji_id = Some ''77'', emoji_name = Some ''party'' \<rparr> \<rparr>"

definition reactions_partial :: "string \<Rightarrow> bool" where
  "reactions_partial p = (p = ''Reaction'')"

definition nothing_partial :: "string \<Rightarrow> bool" where
  "nothing_partial p = False"

definition three_entries :: "unit CacheCollection" where
  "three_entries =
     \<lparr> maxSize = None,
       storage = [\<lparr> entry_key = ''pinned'', entry_value = (), insertedAt = 0 \<rparr>,
                  \<lparr> entry_key = ''old'', entry_value = (), insertedAt = 10000 \<rparr>,
                  \<lparr> entry_key = ''young'', entry_value = (), insertedAt = 50000 \<rparr>] \<rparr>"

definition is_pinned :: "unit CacheEntry \<Rightarrow> bool" where
  "is_pinned e = (entry_key e = ''pinned'')"

definition always_limited :: "nat \<Rightarrow> unit response" where
  "always_limited i = TooManyRequests 1000 False"

definition recovers_third :: "nat \<Rightarrow> string response" where
  "recovers_third i = (if i < 2 then ServerError else Success ''ok'')"

section \<open>The interaction factory is keyed on the type alone\<close>

lemmas InteractionType_values = ApplicationCommand_def MessageComponent_def
  ApplicationCommandAutocomplete_def ModalSubmit_def

text \<open>
  C7. The variant that \<open>Interaction.from\<close> constructs is a function of the payload's
  \<open>type\<close> alone.
\<close>

theorem Interaction_from_by_type:
  "(interaction_type d = interaction_type d' \<longrightarrow>
      variant_of (Interaction_from d res) = variant_of (Interaction_from d' res'))
   \<and> (interaction_type d = ApplicationCommand \<longrightarrow>
      Interaction_from d res = CommandInteraction d res)
   \<and> (interaction_type d = MessageComponent \<longrightarrow>
      Interaction_from d res = ComponentInteraction d res)
   \<and> (interaction_type d = ApplicationCommandAutocomplete \<longrightarrow>
      Interaction_from d res = AutocompleteInteraction d res)
   \<and> (interaction_type d = ModalSubmit \<longrightarrow>
      Interaction_from d res = ModalSubmitInteraction d res)
   \<and> (interaction_type d \<notin> {ApplicationCommand, MessageComponent,
          ApplicationCommandAutocomplete, ModalSubmit} \<longrightarrow>
      Interaction_from d res = BaseInteraction d)"
  by (simp add: Interaction_from_def InteractionType_values)

theorem Interaction_from_by_type_witness:
  "variant_of (Interaction_from (example_interaction 2 ''ping'') (None :: unit option))
     = variant_of (Interaction_from (example_interaction 2 ''pong'') (Some ()))
   \<and> Interaction_from (example_interaction 2 ''ping'') (Some ())
     = CommandInteraction (example_interaction 2 ''ping'') (Some ())
   \<and> Interaction_from (example_interaction 3 ''ping'') (Some ())
     = ComponentInteraction (example_interaction 3 ''ping'') (Some ())
   \<and> Interaction_from (example_interaction 4 ''ping'') (Some ())
     = AutocompleteInteraction (example_interaction 4 ''ping'') (Some ())
   \<and> Interaction_from (example_interaction 5 ''ping'') (Some ())
     = ModalSubmitInteraction (example_interaction 5 ''ping'') (Some ())
   \<and> Interaction_from (example_interaction 1 ''ping'') (Some ())
     = BaseInteraction (example_interaction 1 ''ping'')
   \<and> Interaction_from (example_interaction 99 ''ping'') (Some ())
     = BaseInteraction (example_interaction 99 ''ping'')"
  using Interaction_from_by_type [of "example_interaction 2 ''ping''"
          "example_interaction 2 ''pong''" "None :: unit option" "Some ()"]
    Interaction_from_by_type [of "example_interaction 2 ''ping''"
          "example_interaction 2 ''ping''" "Some ()" "Some ()"]
    Interaction_from_by_type [of "example_interaction 3 ''ping''"
          "example_interaction 3 ''ping''" "Some ()" "Some ()"]
    Interaction_from_by_type [of "example_interaction 4 ''ping''"
          "example_interaction 4 ''ping''" "Some ()" "Some ()"]
    Interaction_from_by_type [of "example_interaction 5 ''ping''"
          "example_interaction 5 ''ping''" "Some ()" "Some ()"]
    Interaction_from_by_type [of "example_interaction 1 ''ping''"
          "example_interaction 1 ''ping''" "Some ()" "Some ()"]
    Interaction_from_by_type [of "example_interaction 99 ''ping''"
          "example_interaction 99 ''ping''" "Some ()" "Some ()"]
  by (simp add: example_interaction_def InteractionType_values Interaction_from_def)

section \<open>Acknowledgement\<close>

lemma reply_throws_iff:
  "fst (Interaction_reply tf tr this c) = Inl InteractionAlreadyAcknowledged \<longleftrightarrow> acknowledged this"
  by (simp add: Interaction_reply_def split: option.splits)

lemma defer_throws_iff:
  "fst (Interaction_defer tr this fl) = Inl InteractionAlreadyAcknowledged \<longleftrightarrow> acknowledged this"
  by (simp add: Interaction_defer_def split: option.splits)

lemma reply_state:
  "snd (Interaction_reply tf tr this c) =
     (if fst (Interaction_reply tf tr this c) = Inr () then this\<lparr>acknowledged := True\<rparr> else this)"
  by (simp add: Interaction_reply_def split: option.splits)

lemma defer_state:
  "snd (Interaction_defer tr this fl) =
     (if fst (Interaction_defer tr this fl) = Inr () then this\<lparr>acknowledged := True\<rparr> else this)"
  by (simp add: Interaction_defer_def split: option.splits)

lemma reply_acknowledged_after:
  "acknowledged (snd (Interaction_reply tf tr this c)) \<longleftrightarrow>
     fst (Interaction_reply tf tr this c) = Inr () \<or> acknowledged this"
  by (simp add: reply_state)

lemma defer_acknowledged_after:
  "acknowledged (snd (Interaction_defer tr this fl)) \<longleftrightarrow>
     fst (Interaction_defer tr this fl) = Inr () \<or> acknowledged this"
  by (simp add: defer_state)

lemma settled_no_acknowledgement_error:
  "settled outcome \<noteq> Inl InteractionNoAcknowledged"
  by (simp add: settled_def split: sum.splits)

lemma follow_up_throws_iff:
  "deleteReply rest1 this m = Inl InteractionNoAcknowledged \<longleftrightarrow> \<not> acknowledged this"
  "createFollowUP tf2 rest2 this c = Inl InteractionNoAcknowledged \<longleftrightarrow> \<not> acknowledged this"
  "getOriginalReply rest3 rs3 this = Inl InteractionNoAcknowledged \<longleftrightarrow> \<not> acknowledged this"
  by (simp_all add: deleteReply_def createFollowUP_def getOriginalReply_def
      settled_no_acknowledgement_error split: sum.splits)

text \<open>
  C9, as the code has it. \<open>reply\<close> and \<open>defer\<close> throw
  \<open>InteractionAlreadyAcknowledged\<close> exactly when the flag is already set, and then
  leave the interaction as it was; a call that returns normally sets the flag; a call
  rejected by the transport leaves the flag unset. So of two successive calls the
  second throws \<open>InteractionAlreadyAcknowledged\<close> whenever the first returned
  normally or threw that error itself. \<open>deleteReply\<close>, \<open>createFollowUP\<close> and
  \<open>getOriginalReply\<close> throw \<open>InteractionNoAcknowledged\<close> exactly when the flag is
  still unset.
\<close>

theorem acknowledged_protocol:
  "(fst (Interaction_reply tf tr this c) = Inl InteractionAlreadyAcknowledged
      \<longleftrightarrow> acknowledged this)
   \<and> (fst (Interaction_defer tr this fl) = Inl InteractionAlreadyAcknowledged
      \<longleftrightarrow> acknowledged this)
   \<and> (acknowledged this \<longrightarrow>
        snd (Interaction_reply tf tr this c) = this \<and> snd (Interaction_defer tr this fl) = this)
   \<and> (fst (Interaction_reply tf tr this c) = Inr () \<longrightarrow>
        acknowledged (snd (Interaction_reply tf tr this c)))
   \<and> (fst (Interaction_defer tr this fl) = Inr () \<longrightarrow>
        acknowledged (snd (Interaction_defer tr this fl)))
   \<and> (fst (Interaction_reply tf tr this c) = Inl (Rejected e) \<longrightarrow>
        snd (Interaction_reply tf tr this c) = this \<and> \<not> acknowledged this)
   \<and> (fst (Interaction_defer tr this fl) = Inl (Rejected e) \<longrightarrow>
        snd (Interaction_defer tr this fl) = this \<and> \<not> acknowledged this)
   \<and> (fst (Interaction_reply tf tr this c) \<in> {Inr (), Inl InteractionAlreadyAcknowledged} \<longrightarrow>
        fst (Interaction_reply tf' tr' (snd (Interaction_reply tf tr this c)) c')
          = Inl InteractionAlreadyAcknowledged
        \<and> fst (Interaction_defer tr' (snd (Interaction_reply tf tr this c)) fl')
          = Inl InteractionAlreadyAcknowledged)
   \<and> (fst (Interaction_defer tr this fl) \<in> {Inr (), Inl InteractionAlreadyAcknowledged} \<longrightarrow>
        fst (Interaction_reply tf' tr' (snd (Interaction_defer tr this fl)) c')
          = Inl InteractionAlreadyAcknowledged
        \<and> fst (Interaction_defer tr' (snd (Interaction_defer tr this fl)) fl')
          = Inl InteractionAlreadyAcknowledged)
   \<and> (deleteReply deleteWebhookMessage this m = Inl InteractionNoAcknowledged
        \<longleftrightarrow> \<not> acknowledged this)
   \<and> (createFollowUP tf2 executeWebhook this c2 = Inl InteractionNoAcknowledged
        \<longleftrightarrow> \<not> acknowledged this)
   \<and> (getOriginalReply getWebhookMessage resolveMessage this = Inl InteractionNoAcknowledged
        \<longleftrightarrow> \<not> acknowledged this)"
proof -
  have second_after_reply:
    "fst (Interaction_reply tf tr this c) \<in> {Inr (), Inl InteractionAlreadyAcknowledged} \<longrightarrow>
       acknowledged (snd (Interaction_reply tf tr this c))"
    by (auto simp: reply_acknowledged_after reply_throws_iff)
  have second_after_defer:
    "fst (Interaction_defer tr this fl) \<in> {Inr (), Inl InteractionAlreadyAcknowledged} \<longrightarrow>
       acknowledged (snd (Interaction_defer tr this fl))"
    by (auto simp: defer_acknowledged_after defer_throws_iff)
  have rejected_reply:
    "fst (Interaction_reply tf tr this c) = Inl (Rejected e) \<longrightarrow>
       snd (Interaction_reply tf tr this c) = this \<and> \<not> acknowledged this"
    by (simp add: Interaction_reply_def split: option.splits)
  have rejected_defer:
    "fst (Interaction_defer tr this fl) = Inl (Rejected e) \<longrightarrow>
       snd (Interaction_defer tr this fl) = this \<and> \<not> acknowledged this"
    by (simp add: Interaction_defer_def split: option.splits)
  have unchanged:
    "acknowledged this \<longrightarrow>
       snd (Interaction_reply tf tr this c) = this \<and> snd (Interaction_defer tr this fl) = this"
    by (simp add: Interaction_reply_def Interaction_defer_def)
  show ?thesis
    using second_after_reply second_after_defer rejected_reply rejected_defer unchanged
    by (simp add: reply_throws_iff defer_throws_iff follow_up_throws_iff
        reply_acknowledged_after defer_acknowledged_after)
qed

theorem acknowledged_protocol_witness:
  "\<not> acknowledged fresh_interaction
   \<and> fst (Interaction_reply plain accepts_all fresh_interaction ''pong'') = Inr ()
   \<and> acknowledged (snd (Interaction_reply plain accepts_all fresh_interaction ''pong''))
   \<and> fst (Interaction_reply plain accepts_all
            (snd (Interaction_reply plain accepts_all fresh_interaction ''pong'')) ''again'')
       = Inl InteractionAlreadyAcknowledged
   \<and> fst (Interaction_defer accepts_all
            (snd (Interaction_reply plain accepts_all fresh_interaction ''pong'')) None)
       = Inl InteractionAlreadyAcknowledged
   \<and> fst (Interaction_defer accepts_all fresh_interaction (Some 64)) = Inr ()
   \<and> fst (Interaction_reply plain accepts_all
            (snd (Interaction_defer accepts_all fresh_interaction (Some 64))) ''late'')
       = Inl InteractionAlreadyAcknowledged
   \<and> fst (Interaction_reply plain refuses_empty fresh_interaction []) = Inl (Rejected ''400 Bad Request'')
   \<and> snd (Interaction_reply plain refuses_empty fresh_interaction []) = fresh_interaction
   \<and> deleteReply echo_webhook fresh_interaction ''@original''
       = Inl InteractionNoAcknowledged
   \<and> deleteReply echo_webhook
        (snd (Interaction_reply plain accepts_all fresh_interaction ''pong'')) ''@original''
       = Inr ''@original''
   \<and> getOriginalReply echo_webhook (Inr :: string \<Rightarrow> string + string) fresh_interaction
       = Inl InteractionNoAcknowledged
   \<and> createFollowUP plain echo_webhook fresh_interaction ''more''
       = Inl InteractionNoAcknowledged"
  using acknowledged_protocol [of plain accepts_all fresh_interaction "''pong''" None
      "''400 Bad Request''" plain accepts_all "''again''" None
      echo_webhook "''@original''" plain echo_webhook "''more''" echo_webhook
      "Inr :: string \<Rightarrow> string + string"]
    acknowledged_protocol [of plain accepts_all fresh_interaction "''pong''" "Some 64"
      "''400 Bad Request''" plain accepts_all "''late''" None]
    acknowledged_protocol [of plain refuses_empty fresh_interaction "[]" None
      "''400 Bad Request''"]
  by (simp add: fresh_interaction_def new_ReplyableInteraction_def example_interaction_def
      Interaction_reply_def Interaction_defer_def respond_def accepts_all_def plain_def
      deleteReply_def createFollowUP_def getOriginalReply_def settled_def echo_webhook_def)

text \<open>
  Against C9 as stated: two successive \<open>reply\<close> calls on one interaction, of which
  the second returns normally. The first is rejected by the transport, so the flag
  stays unset.
\<close>

theorem second_reply_returns_counterexample:
  "fst (Interaction_reply plain refuses_empty fresh_interaction [])
     = Inl (Rejected ''400 Bad Request'')
   \<and> fst (Interaction_reply plain refuses_empty
            (snd (Interaction_reply plain refuses_empty fresh_interaction [])) ''pong'')
     = Inr ()"
  by (simp add: fresh_interaction_def new_ReplyableInteraction_def example_interaction_def
      Interaction_reply_def respond_def plain_def)

section \<open>Replying to a message\<close>

lemma reference_this_sets:
  "\<exists>r. message_reference (reference_this this c) = Some r
       \<and> message_id r = Some (id' this) \<and> channel_id r = Some (channelId this)"
  by (simp add: reference_this_def Let_def)

text \<open>
  C10. Whenever \<open>reply\<close> hands a body to \<open>createMessage\<close>, the body's
  \<open>message_reference\<close> names this message and its channel, whatever reference the
  caller supplied; and a resolved message with a channel (of type \<open>Default\<close> or
  \<open>Reply\<close> in \<open>packages/darkcord\<close>) does hand the body over. Both versions of
  \<open>Message.ts\<close>.
\<close>

theorem Message_reply_reference:
  "(Message_reply this given = CreateMessage ch b \<longrightarrow>
      (\<exists>r. message_reference b = Some r
           \<and> message_id r = Some (id' this) \<and> channel_id r = Some (channelId this)))
   \<and> (Message_reply_src cached getChannel adopt this c = CreateMessage ch' b' \<longrightarrow>
      (\<exists>r. message_reference b' = Some r
           \<and> message_id r = Some (id' this) \<and> channel_id r = Some (channelId this)))
   \<and> (messageType this \<in> {MessageType_Default, MessageType_Reply} \<and> isResolved this
        \<and> channel this = Some ch0 \<longrightarrow>
      Message_reply this (Inr c) = CreateMessage ch0 (reference_this this c))
   \<and> (isResolved this \<and> channel this = Some ch0 \<longrightarrow>
      Message_reply_src cached getChannel adopt this c
        = CreateMessage ch0 (reference_this this c))"
proof (intro conjI impI)
  assume "Message_reply this given = CreateMessage ch b"
  then have "\<exists>c0. b = reference_this this c0"
    by (auto simp: Message_reply_def Let_def split: if_splits option.splits sum.splits)
  then show "\<exists>r. message_reference b = Some r
           \<and> message_id r = Some (id' this) \<and> channel_id r = Some (channelId this)"
    using reference_this_sets by blast
next
  assume "Message_reply_src cached getChannel adopt this c = CreateMessage ch' b'"
  then have "b' = reference_this this c"
    by (auto simp: Message_reply_src_def Let_def split: if_splits option.splits sum.splits)
  then show "\<exists>r. message_reference b' = Some r
           \<and> message_id r = Some (id' this) \<and> channel_id r = Some (channelId this)"
    using reference_this_sets by blast
next
  assume "messageType this \<in> {MessageType_Default, MessageType_Reply} \<and> isResolved this
        \<and> channel this = Some ch0"
  then show "Message_reply this (Inr c) = CreateMessage ch0 (reference_this this c)"
    by (auto simp: Message_reply_def Let_def)
next
  assume "isResolved this \<and> channel this = Some ch0"
  then show "Message_reply_src cached getChannel adopt this c
        = CreateMessage ch0 (reference_this this c)"
    by (simp add: Message_reply_src_def Let_def)
qed

theorem Message_reply_reference_witness:
  "Message_reply (example_message True (Some ''general'')) (Inr example_post)
     = (CreateMessage ''general'' (example_post\<lparr>message_reference := Some own_reference\<rparr>)
          :: (string, unit, unit) reply_result)
   \<and> Message_reply_src nowhere fetched adopted (example_message False None) example_post
     = (CreateMessage ''general'' (example_post\<lparr>message_reference := Some own_reference\<rparr>)
          :: (string, unit, string) reply_result)
   \<and> message_id own_reference = Some (id' (example_message True (Some ''general'')))
   \<and> channel_id own_reference = Some (channelId (example_message True (Some ''general'')))
   \<and> message_id foreign_reference \<noteq> message_id own_reference
   \<and> channel_id foreign_reference \<noteq> channel_id own_reference"
proof -
  have pkg: "Message_reply (example_message True (Some ''general'')) (Inr example_post)
     = (CreateMessage ''general'' (example_post\<lparr>message_reference := Some own_reference\<rparr>)
          :: (string, unit, unit) reply_result)"
    by (simp add: Message_reply_def example_message_def example_post_def reference_this_def
        foreign_reference_def own_reference_def MessageType_Default_def MessageType_Reply_def)
  have src: "Message_reply_src nowhere fetched adopted (example_message False None) example_post
     = (CreateMessage ''general'' (example_post\<lparr>message_reference := Some own_reference\<rparr>)
          :: (string, unit, string) reply_result)"
    by (simp add: Message_reply_src_def Message_resolve_def nowhere_def fetched_def adopted_def
        example_message_def example_post_def reference_this_def
        foreign_reference_def own_reference_def)
  from Message_reply_reference [of "example_message True (Some ''general'')" "Inr example_post"
      "''general''" "example_post\<lparr>message_reference := Some own_reference\<rparr>"
      nowhere fetched adopted example_post "''general''"
      "example_post\<lparr>message_reference := Some own_reference\<rparr>" "''general''"]
    Message_reply_reference [of "example_message False None" "Inr example_post"
      "''general''" "example_post\<lparr>message_reference := Some own_reference\<rparr>"
      nowhere fetched adopted example_post "''general''"
      "example_post\<lparr>message_reference := Some own_reference\<rparr>" "''general''"]
    pkg src
  show ?thesis
    by (simp add: example_message_def own_reference_def foreign_reference_def)
qed

section \<open>Reactions are stored per entity type\<close>

lemma constructor_loop_eq:
  "constructor_loop partial Partials_Reaction rs acc =
     acc @ map (\<lambda>r. \<lparr> item = resolved_reaction partial Partials_Reaction r,
                       replace = None, add_key = None \<rparr>) rs"
  by (induction rs arbitrary: acc) simp_all

lemma update_loop_eq:
  "update_loop partial Partials_Reaction rs acc =
     acc @ map (\<lambda>r. \<lparr> item = resolved_reaction partial Partials_Reaction r,
                       replace = Some True,
                       add_key = reaction_key (resolved_reaction partial Partials_Reaction r) \<rparr>) rs"
  by (induction rs arbitrary: acc) simp_all

lemma is_raw_resolved:
  "is_raw (resolved_reaction partial Partials_Reaction r) = partial Partials_Reaction"
  by (simp add: resolved_reaction_def)

lemma wire_resolved: "wire_record (resolved_reaction partial Partials_Reaction r) = r"
  by (simp add: resolved_reaction_def)

lemma update_same_form:
  "same_form partial Partials_Reaction acc \<Longrightarrow>
     same_form partial Partials_Reaction
       (Message_update_reactions partial Partials_Reaction dr acc)"
  by (auto simp: same_form_def Message_update_reactions_def update_loop_eq is_raw_resolved
      list_all_iff split: option.splits)

lemma createReaction_same_form:
  "same_form partial Partials_Reaction acc \<Longrightarrow>
     same_form partial Partials_Reaction
       (Message_createReaction partial Partials_Reaction returned acc)"
  by (simp add: same_form_def Message_createReaction_def is_raw_resolved)

lemma step_same_form:
  "same_form partial Partials_Reaction acc \<Longrightarrow>
     same_form partial Partials_Reaction (message_step partial Partials_Reaction acc ev)"
  by (cases ev) (simp_all add: update_same_form createReaction_same_form)

lemma foldl_same_form:
  "same_form partial Partials_Reaction acc \<Longrightarrow>
     same_form partial Partials_Reaction
       (foldl (message_step partial Partials_Reaction) acc evs)"
  by (induction evs arbitrary: acc) (simp_all add: step_same_form)

lemma message_reactions_same_form:
  "same_form partial Partials_Reaction (message_reactions partial Partials_Reaction dr evs)"
  unfolding message_reactions_def
  by (rule foldl_same_form, rule update_same_form) (simp add: same_form_def)

lemma constructor_same_form:
  "same_form partial Partials_Reaction
     (Message_constructor_reactions partial Partials_Reaction dr)"
  by (auto simp: same_form_def Message_constructor_reactions_def constructor_loop_eq
      is_raw_resolved list_all_iff split: option.splits)

lemma foldl_src_same_form:
  "same_form partial Partials_Reaction acc \<Longrightarrow>
     same_form partial Partials_Reaction
       (foldl (\<lambda>reactions returned.
                 Message_createReaction_src partial Partials_Reaction returned reactions)
          acc created)"
  by (induction created arbitrary: acc)
    (simp_all add: same_form_def Message_createReaction_src_def is_raw_resolved)

lemma message_reactions_src_same_form:
  "same_form partial Partials_Reaction
     (message_reactions_src partial Partials_Reaction dr created)"
  unfolding message_reactions_src_def
  by (rule foldl_src_same_form) (rule constructor_same_form)

text \<open>
  C8. Whether a reaction is cached raw or hydrated is decided by the partial flag of
  the \<open>Reaction\<close> type, not by the entry: every reaction the constructor or
  \<open>_update\<close> adds is raw when the flag is set and hydrated otherwise, every reaction
  of the payload is added, and all reactions one message has received through its
  constructor, later updates and \<open>createReaction\<close> have the same form. Both versions
  of \<open>Message.ts\<close>.
\<close>

theorem reactions_stored_per_type:
  "(\<forall>a \<in> set (message_reactions_src partial Partials_Reaction dr created).
       is_raw (item a) = partial Partials_Reaction)
   \<and> (\<forall>a \<in> set (message_reactions partial Partials_Reaction dr evs).
       is_raw (item a) = partial Partials_Reaction)
   \<and> (\<forall>a \<in> set (message_reactions_src partial Partials_Reaction dr created).
       \<forall>b \<in> set (message_reactions_src partial Partials_Reaction dr created).
         is_raw (item a) = is_raw (item b))
   \<and> (\<forall>a \<in> set (message_reactions partial Partials_Reaction dr evs).
       \<forall>b \<in> set (message_reactions partial Partials_Reaction dr evs).
         is_raw (item a) = is_raw (item b))
   \<and> map (\<lambda>a. wire_record (item a))
        (Message_constructor_reactions partial Partials_Reaction (Some rs)) = rs
   \<and> map (\<lambda>a. wire_record (item a))
        (Message_update_reactions partial Partials_Reaction (Some rs) []) = rs"
  using message_reactions_same_form [of partial Partials_Reaction dr evs]
    message_reactions_src_same_form [of partial Partials_Reaction dr created]
  by (simp add: same_form_def list_all_iff Message_constructor_reactions_def
      Message_update_reactions_def constructor_loop_eq update_loop_eq wire_resolved o_def)

theorem reactions_stored_per_type_witness:
  "map item (message_reactions_src reactions_partial ''Reaction''
               (Some [thumbs_up, custom_emoji]) [thumbs_up])
     = [Raw thumbs_up, Raw custom_emoji, Raw thumbs_up]
   \<and> map item (message_reactions_src nothing_partial ''Reaction''
               (Some [thumbs_up, custom_emoji]) [])
     = [Hydrated thumbs_up, Hydrated custom_emoji]
   \<and> map item (message_reactions reactions_partial ''Reaction'' (Some [thumbs_up])
                 [Update (Some [custom_emoji]), CreateReaction thumbs_up])
     = [Raw thumbs_up, Raw custom_emoji, Raw thumbs_up]
   \<and> map item (message_reactions nothing_partial ''Reaction'' (Some [thumbs_up])
                 [Update None, CreateReaction custom_emoji])
     = [Hydrated thumbs_up, Hydrated custom_emoji]
   \<and> map add_key (message_reactions nothing_partial ''Reaction'' (Some [thumbs_up])
                 [Update None, CreateReaction custom_emoji])
     = [Some ''thumbsup'', Some ''77'']"
  using reactions_stored_per_type [of reactions_partial "''Reaction''"
      "Some [thumbs_up, custom_emoji]" "[thumbs_up]"
      "[Update (Some [custom_emoji]), CreateReaction thumbs_up]" "[thumbs_up, custom_emoji]"]
    reactions_stored_per_type [of nothing_partial "''Reaction''" "Some [thumbs_up]" "[]"
      "[Update None, CreateReaction custom_emoji]" "[thumbs_up, custom_emoji]"]
  by (simp add: Message_constructor_reactions_def message_reactions_def
      message_reactions_src_def Message_createReaction_src_def
      Message_update_reactions_def Message_createReaction_def resolved_reaction_def
      reactions_partial_def nothing_partial_def reaction_key_def thumbs_up_def custom_emoji_def)

section \<open>The size bound of a cache collection\<close>

lemma length_overwrite: "length (overwrite k v es) = length es"
  by (induction es) simp_all

lemma length_evict_oldest: "length (evict_oldest es) = length es - 1"
  by (cases es) (simp_all add: evict_oldest_def)

lemma sweep_entries_filter:
  "sweep_entries flt keepFilter es = filter (\<lambda>e. \<not> (flt e \<and> \<not> keepFilter e)) es"
  by (induction es) simp_all

lemma maxSize_perform: "maxSize (perform c op) = maxSize c"
  by (cases op) (simp_all add: cache_set_def cache_delete_def sweep_def)

lemma cache_set_bounded:
  assumes "maxSize c = Some n" and "cache_size c \<le> n"
  shows "cache_size (cache_set now k v c) \<le> n"
proof (cases "cache_has c k")
  case True
  then show ?thesis using assms by (simp add: cache_set_def cache_size_def length_overwrite)
next
  case False
  show ?thesis
  proof (cases "cache_size c = n")
    case True
    show ?thesis
    proof (cases "storage c = []")
      case empty: True
      then show ?thesis using assms False \<open>cache_size c = n\<close>
        by (simp add: cache_set_def cache_size_def)
    next
      case nonempty: False
      then have "0 < n" using \<open>cache_size c = n\<close> by (auto simp: cache_size_def)
      then show ?thesis using assms False \<open>cache_size c = n\<close> nonempty
        by (simp add: cache_set_def cache_size_def length_evict_oldest)
    qed
  next
    case False
    then show ?thesis using assms \<open>\<not> cache_has c k\<close>
      by (simp add: cache_set_def cache_size_def)
  qed
qed

lemma perform_bounded:
  assumes "maxSize c = Some n" and "cache_size c \<le> n"
  shows "cache_size (perform c op) \<le> n"
proof (cases op)
  case (Set now k v)
  then show ?thesis using assms by (simp add: cache_set_bounded)
next
  case (Delete k)
  have "length (filter (\<lambda>e. entry_key e \<noteq> k) (storage c)) \<le> length (storage c)"
    by (rule length_filter_le)
  also have "\<dots> \<le> n"
    using assms(2) by (simp add: cache_size_def)
  finally show ?thesis using Delete by (simp add: cache_delete_def cache_size_def)
next
  case (Sweep flt keepFilter)
  have "length (sweep_entries flt keepFilter (storage c)) \<le> length (storage c)"
    unfolding sweep_entries_filter by (rule length_filter_le)
  also have "\<dots> \<le> n"
    using assms(2) by (simp add: cache_size_def)
  finally show ?thesis using Sweep by (simp add: sweep_def cache_size_def)
qed

lemma run_bounded:
  "maxSize c = Some n \<Longrightarrow> cache_size c \<le> n \<Longrightarrow>
     cache_size (run ops c) \<le> n \<and> maxSize (run ops c) = Some n"
proof (induction ops arbitrary: c)
  case Nil
  then show ?case by (simp add: run_def)
next
  case (Cons op ops)
  have "run (op # ops) c = run ops (perform c op)"
    by (simp add: run_def)
  moreover have "cache_size (perform c op) \<le> n"
    using Cons.prems by (rule perform_bounded)
  moreover have "maxSize (perform c op) = Some n"
    using Cons.prems(1) by (simp add: maxSize_perform)
  ultimately show ?case using Cons.IH by simp
qed

lemma run_from_empty_bounded:
  "cache_size (run ops (empty_collection (Some n))) \<le> n
   \<and> maxSize (run ops (empty_collection (Some n))) = Some n"
  by (rule run_bounded) (simp_all add: empty_collection_def cache_size_def)

lemma cache_set_evicts:
  assumes "storage c = oldest # younger" and "maxSize c = Some (cache_size c)"
    and "\<not> cache_has c k"
  shows "storage (cache_set now k v c) =
           younger @ [\<lparr> entry_key = k, entry_value = v, insertedAt = now \<rparr>]"
  using assms by (simp add: cache_set_def evict_oldest_def)

lemma four_inserts:
  assumes "distinct [k1, k2, k3, k4]"
  shows "cache_keys (run [Set t1 k1 v1, Set t2 k2 v2, Set t3 k3 v3, Set t4 k4 v4]
            (empty_collection (Some 3))) = [k2, k3, k4]"
  using assms
  by (auto simp: run_def cache_set_def empty_collection_def cache_has_def cache_keys_def
      cache_size_def evict_oldest_def)

text \<open>
  C4. For every finite \<open>maxSize\<close>, the size of a collection is within \<open>maxSize\<close>
  after every run of operations from the empty collection, and so immediately after
  every insert that follows such a run. Inserting a new key into a collection at
  \<open>maxSize\<close> drops exactly the oldest entry and appends the new one. With
  \<open>maxSize = 3\<close>, four inserts of distinct keys leave three entries: the first key is
  gone, the other three are present.
\<close>

theorem cache_set_within_maxSize:
  "cache_size (run ops (empty_collection (Some n))) \<le> n
   \<and> cache_size (cache_set now k v (run ops (empty_collection (Some n)))) \<le> n
   \<and> (storage c = oldest # younger \<and> maxSize c = Some (cache_size c)
        \<and> \<not> cache_has c k \<longrightarrow>
      storage (cache_set now k v c) =
        younger @ [\<lparr> entry_key = k, entry_value = v, insertedAt = now \<rparr>])
   \<and> (distinct [k1, k2, k3, k4] \<longrightarrow>
      cache_size (run [Set t1 k1 v1, Set t2 k2 v2, Set t3 k3 v3, Set t4 k4 v4]
                    (empty_collection (Some 3))) = 3
      \<and> \<not> cache_has (run [Set t1 k1 v1, Set t2 k2 v2, Set t3 k3 v3, Set t4 k4 v4]
                    (empty_collection (Some 3))) k1
      \<and> cache_has (run [Set t1 k1 v1, Set t2 k2 v2, Set t3 k3 v3, Set t4 k4 v4]
                    (empty_collection (Some 3))) k2
      \<and> cache_has (run [Set t1 k1 v1, Set t2 k2 v2, Set t3 k3 v3, Set t4 k4 v4]
                    (empty_collection (Some 3))) k3
      \<and> cache_has (run [Set t1 k1 v1, Set t2 k2 v2, Set t3 k3 v3, Set t4 k4 v4]
                    (empty_collection (Some 3))) k4)"
proof (intro conjI impI)
  show "cache_size (run ops (empty_collection (Some n))) \<le> n"
    by (simp add: run_from_empty_bounded)
next
  show "cache_size (cache_set now k v (run ops (empty_collection (Some n)))) \<le> n"
    by (rule cache_set_bounded) (simp_all add: run_from_empty_bounded)
next
  assume "storage c = oldest # younger \<and> maxSize c = Some (cache_size c)
        \<and> \<not> cache_has c k"
  then show "storage (cache_set now k v c) =
      younger @ [\<lparr> entry_key = k, entry_value = v, insertedAt = now \<rparr>]"
    by (simp add: cache_set_evicts)
next
  assume d: "distinct [k1, k2, k3, k4]"
  let ?c = "run [Set t1 k1 v1, Set t2 k2 v2, Set t3 k3 v3, Set t4 k4 v4]
              (empty_collection (Some 3))"
  have keys: "cache_keys ?c = [k2, k3, k4]"
    using d by (rule four_inserts)
  then have "length (cache_keys ?c) = 3" by simp
  then show "cache_size ?c = 3"
    by (simp add: cache_keys_def cache_size_def)
  show "\<not> cache_has ?c k1" using keys d by (auto simp: cache_has_def)
  show "cache_has ?c k2" using keys by (simp add: cache_has_def)
  show "cache_has ?c k3" using keys by (simp add: cache_has_def)
  show "cache_has ?c k4" using keys by (simp add: cache_has_def)
qed

theorem cache_set_within_maxSize_witness:
  "cache_keys (run [Set 1 ''a'' (), Set 2 ''b'' (), Set 3 ''c'' ()]
                 (empty_collection (Some 3))) = [''a'', ''b'', ''c'']
   \<and> cache_keys (cache_set 4 ''d'' ()
        (run [Set 1 ''a'' (), Set 2 ''b'' (), Set 3 ''c'' ()]
           (empty_collection (Some 3)))) = [''b'', ''c'', ''d'']
   \<and> cache_size (run [Set 1 ''a'' (), Set 2 ''b'' (), Set 3 ''c'' (), Set 4 ''d'' ()]
                   (empty_collection (Some 3))) = 3
   \<and> \<not> cache_has (run [Set 1 ''a'' (), Set 2 ''b'' (), Set 3 ''c'' (), Set 4 ''d'' ()]
                   (empty_collection (Some 3))) ''a''
   \<and> cache_has (run [Set 1 ''a'' (), Set 2 ''b'' (), Set 3 ''c'' (), Set 4 ''d'' ()]
                   (empty_collection (Some 3))) ''d''
   \<and> cache_keys (run [Set 1 ''a'' (), Set 2 ''b'' (), Delete ''a'', Set 3 ''c'' ()]
                   (empty_collection (Some 2))) = [''b'', ''c'']
   \<and> cache_size (run [Set 1 ''a'' (), Set 2 ''b'' (), Set 3 ''c'' ()]
                   (empty_collection (Some 1))) = 1
   \<and> cache_size (run [Set 1 ''a'' (), Set 2 ''b'' (), Set 3 ''c'' ()]
                   (empty_collection (Some 0))) = 0"
  using cache_set_within_maxSize [of "[Set 1 ''a'' (), Set 2 ''b'' (), Set 3 ''c'' ()]"
      3 4 "''d''" "()"
      "run [Set 1 ''a'' (), Set 2 ''b'' (), Set 3 ''c'' ()] (empty_collection (Some 3))"
      "\<lparr> entry_key = ''a'', entry_value = (), insertedAt = 1 \<rparr>"
      "[\<lparr> entry_key = ''b'', entry_value = (), insertedAt = 2 \<rparr>,
        \<lparr> entry_key = ''c'', entry_value = (), insertedAt = 3 \<rparr>]"
      "''a''" "''b''" "''c''" "''d''" 1 "()" 2 "()" 3 "()" 4 "()"]
    cache_set_within_maxSize [of "[Set 1 ''a'' (), Set 2 ''b'' (), Set 3 ''c'' ()]" 0]
  by (simp add: run_def cache_set_def cache_delete_def empty_collection_def cache_has_def
      cache_keys_def cache_size_def evict_oldest_def)

section \<open>Sweeping\<close>

lemma sweep_twice_storage:
  "storage (sweep flt' keepFilter' (sweep flt keepFilter c)) =
     filter (\<lambda>e. \<not> (flt' e \<and> \<not> keepFilter' e)) (storage (sweep flt keepFilter c))"
  by (simp add: sweep_def sweep_entries_filter)

lemma sweep_again_unchanged_iff:
  "sweep flt' keepFilter' (sweep flt keepFilter c) = sweep flt keepFilter c \<longleftrightarrow>
     (\<forall>e \<in> set (storage (sweep flt keepFilter c)). \<not> (flt' e \<and> \<not> keepFilter' e))"
proof
  assume "sweep flt' keepFilter' (sweep flt keepFilter c) = sweep flt keepFilter c"
  then have "storage (sweep flt' keepFilter' (sweep flt keepFilter c))
      = storage (sweep flt keepFilter c)"
    by simp
  then have "filter (\<lambda>e. \<not> (flt' e \<and> \<not> keepFilter' e)) (storage (sweep flt keepFilter c))
      = storage (sweep flt keepFilter c)"
    by (simp only: sweep_twice_storage)
  then show "\<forall>e \<in> set (storage (sweep flt keepFilter c)). \<not> (flt' e \<and> \<not> keepFilter' e)"
    by (simp only: filter_id_conv)
next
  assume "\<forall>e \<in> set (storage (sweep flt keepFilter c)). \<not> (flt' e \<and> \<not> keepFilter' e)"
  then have "filter (\<lambda>e. \<not> (flt' e \<and> \<not> keepFilter' e)) (storage (sweep flt keepFilter c))
      = storage (sweep flt keepFilter c)"
    by (simp only: filter_id_conv)
  then have "sweep_entries flt' keepFilter' (storage (sweep flt keepFilter c))
      = storage (sweep flt keepFilter c)"
    by (simp only: sweep_entries_filter)
  then show "sweep flt' keepFilter' (sweep flt keepFilter c) = sweep flt keepFilter c"
    by (simp add: sweep_def)
qed

lemma older_than_later: "t1 \<le> t2 \<Longrightarrow> older_than lifetime t1 e \<Longrightarrow> older_than lifetime t2 e"
  by (simp add: older_than_def)

lemma age_sweeps_compose:
  assumes "t1 \<le> t2"
  shows "sweep (older_than lifetime t2) keepFilter (sweep (older_than lifetime t1) keepFilter c)
           = sweep (older_than lifetime t2) keepFilter c"
proof -
  have "filter (\<lambda>e. \<not> (older_than lifetime t2 e \<and> \<not> keepFilter e))
          (filter (\<lambda>e. \<not> (older_than lifetime t1 e \<and> \<not> keepFilter e)) (storage c))
        = filter (\<lambda>e. \<not> (older_than lifetime t2 e \<and> \<not> keepFilter e)) (storage c)"
    using assms by (auto simp: older_than_def intro!: filter_cong)
  then show ?thesis
    by (simp add: sweep_def sweep_entries_filter)
qed

text \<open>
  C5, as the model of the spec's sweep algorithm has it. A sweep removes exactly the
  entries for which the filter holds and the keep filter does not, and keeps the
  others in their order. A second sweep right after it, with no insert between,
  removes nothing exactly when none of the entries left matches the filter of the
  second run without matching its keep filter: so it removes nothing when the two
  callbacks answer as in the first run, or match nothing the first run did not. An
  age filter read at a later time can match more: the second sweep then leaves what
  one sweep at the later time leaves.
\<close>

theorem sweep_idempotent:
  "storage (sweep flt keepFilter c) =
     filter (\<lambda>e. \<not> (flt e \<and> \<not> keepFilter e)) (storage c)
   \<and> set (storage c) - set (storage (sweep flt keepFilter c)) =
     {e \<in> set (storage c). flt e \<and> \<not> keepFilter e}
   \<and> maxSize (sweep flt keepFilter c) = maxSize c
   \<and> sweep flt keepFilter (sweep flt keepFilter c) = sweep flt keepFilter c
   \<and> (sweep flt' keepFilter' (sweep flt keepFilter c) = sweep flt keepFilter c \<longleftrightarrow>
        (\<forall>e \<in> set (storage (sweep flt keepFilter c)). \<not> (flt' e \<and> \<not> keepFilter' e)))
   \<and> ((\<forall>e \<in> set (storage c). flt' e \<and> \<not> keepFilter' e \<longrightarrow> flt e \<and> \<not> keepFilter e) \<longrightarrow>
        sweep flt' keepFilter' (sweep flt keepFilter c) = sweep flt keepFilter c)
   \<and> (t1 \<le> t2 \<longrightarrow>
        sweep (older_than lifetime t2) keepFilter
          (sweep (older_than lifetime t1) keepFilter c)
        = sweep (older_than lifetime t2) keepFilter c)"
proof (intro conjI impI)
  show "storage (sweep flt keepFilter c) =
     filter (\<lambda>e. \<not> (flt e \<and> \<not> keepFilter e)) (storage c)"
    by (simp add: sweep_def sweep_entries_filter)
next
  show "set (storage c) - set (storage (sweep flt keepFilter c)) =
     {e \<in> set (storage c). flt e \<and> \<not> keepFilter e}"
    by (auto simp: sweep_def sweep_entries_filter)
next
  show "maxSize (sweep flt keepFilter c) = maxSize c"
    by (simp add: sweep_def)
next
  show "sweep flt keepFilter (sweep flt keepFilter c) = sweep flt keepFilter c"
    by (simp add: sweep_def sweep_entries_filter)
next
  show "sweep flt' keepFilter' (sweep flt keepFilter c) = sweep flt keepFilter c \<longleftrightarrow>
        (\<forall>e \<in> set (storage (sweep flt keepFilter c)). \<not> (flt' e \<and> \<not> keepFilter' e))"
    by (rule sweep_again_unchanged_iff)
next
  assume "\<forall>e \<in> set (storage c). flt' e \<and> \<not> keepFilter' e \<longrightarrow> flt e \<and> \<not> keepFilter e"
  then have "\<forall>e \<in> set (storage (sweep flt keepFilter c)). \<not> (flt' e \<and> \<not> keepFilter' e)"
    by (auto simp: sweep_def sweep_entries_filter)
  then show "sweep flt' keepFilter' (sweep flt keepFilter c) = sweep flt keepFilter c"
    by (simp only: sweep_again_unchanged_iff)
next
  assume "t1 \<le> t2"
  then show "sweep (older_than lifetime t2) keepFilter
          (sweep (older_than lifetime t1) keepFilter c)
        = sweep (older_than lifetime t2) keepFilter c"
    by (rule age_sweeps_compose)
qed

theorem sweep_idempotent_witness:
  "cache_keys three_entries = [''pinned'', ''old'', ''young'']
   \<and> cache_keys (sweep (older_than 60000 100000) is_pinned three_entries)
     = [''pinned'', ''young'']
   \<and> sweep (older_than 60000 100000) is_pinned
        (sweep (older_than 60000 100000) is_pinned three_entries)
     = sweep (older_than 60000 100000) is_pinned three_entries
   \<and> sweep (older_than 60000 105000) is_pinned
        (sweep (older_than 60000 100000) is_pinned three_entries)
     = sweep (older_than 60000 100000) is_pinned three_entries
   \<and> sweep (older_than 60000 120000) is_pinned
        (sweep (older_than 60000 100000) is_pinned three_entries)
     = sweep (older_than 60000 120000) is_pinned three_entries"
  using sweep_idempotent [of "older_than 60000 100000" is_pinned three_entries
      "older_than 60000 105000" is_pinned 100000 120000 60000]
  by (simp add: sweep_def three_entries_def older_than_def is_pinned_def cache_keys_def)

text \<open>
  Against C5 as stated: two sweeps of one collection with no insert between, the age
  filter of the spec's example read at the time of each run. The entry \<open>young\<close> is
  not older than 60 seconds at the first run and is at the second, 20 seconds later,
  so the second sweep removes it.
\<close>

theorem later_sweep_removes_counterexample:
  "cache_keys (sweep (older_than 60000 100000) is_pinned three_entries)
     = [''pinned'', ''young'']
   \<and> cache_keys (sweep (older_than 60000 120000) is_pinned
        (sweep (older_than 60000 100000) is_pinned three_entries))
     = [''pinned'']"
  by (simp add: sweep_def three_entries_def older_than_def is_pinned_def cache_keys_def)

section \<open>Retry exhaustion\<close>

lemma request_loop_exhausts:
  "retries \<le> maxRetry \<Longrightarrow> (\<forall>i. retries \<le> i \<and> i \<le> maxRetry \<longrightarrow> retryable (server i)) \<Longrightarrow>
     request_loop maxRetry server retries = (Inl RetryExhausted, Suc maxRetry)"
proof (induction maxRetry server retries rule: request_loop.induct)
  case (1 maxRetry server retries)
  have r: "retryable (server retries)" using "1.prems" by simp
  show ?case
  proof (cases "maxRetry < Suc retries")
    case True
    then have "retries = maxRetry" using "1.prems"(1) by simp
    then show ?thesis using r by (cases "server retries") simp_all
  next
    case False
    then have le: "Suc retries \<le> maxRetry" by simp
    have all: "\<forall>i. Suc retries \<le> i \<and> i \<le> maxRetry \<longrightarrow> retryable (server i)"
      using "1.prems"(2) by simp
    show ?thesis
    proof (cases "server retries")
      case (Success r')
      then show ?thesis using r by simp
    next
      case (TooManyRequests d g)
      then show ?thesis using False "1.IH"(1) [OF TooManyRequests False le all] by simp
    next
      case ServerError
      then show ?thesis using False "1.IH"(2) [OF ServerError False le all] by simp
    next
      case (ClientError s b)
      then show ?thesis using r by simp
    qed
  qed
qed

lemma request_loop_sent:
  "retries \<le> maxRetry \<Longrightarrow> snd (request_loop maxRetry server retries) \<le> Suc maxRetry
     \<and> retries < snd (request_loop maxRetry server retries)"
proof (induction maxRetry server retries rule: request_loop.induct)
  case (1 maxRetry server retries)
  show ?case
  proof (cases "server retries")
    case (Success r')
    then show ?thesis using "1.prems" by simp
  next
    case (TooManyRequests d g)
    show ?thesis
    proof (cases "maxRetry < Suc retries")
      case True
      then show ?thesis using TooManyRequests "1.prems" by simp
    next
      case False
      then have "Suc retries \<le> maxRetry" by simp
      from "1.IH"(1) [OF TooManyRequests False this] show ?thesis
        using TooManyRequests False by simp
    qed
  next
    case ServerError
    show ?thesis
    proof (cases "maxRetry < Suc retries")
      case True
      then show ?thesis using ServerError "1.prems" by simp
    next
      case False
      then have "Suc retries \<le> maxRetry" by simp
      from "1.IH"(2) [OF ServerError False this] show ?thesis
        using ServerError False by simp
    qed
  next
    case (ClientError s b)
    then show ?thesis using "1.prems" by simp
  qed
qed

lemma request_loop_exhausted_only:
  "retries \<le> maxRetry \<Longrightarrow> fst (request_loop maxRetry server retries) = Inl RetryExhausted \<Longrightarrow>
     (\<forall>i. retries \<le> i \<and> i \<le> maxRetry \<longrightarrow> retryable (server i))"
proof (induction maxRetry server retries rule: request_loop.induct)
  case (1 maxRetry server retries)
  show ?case
  proof (cases "server retries")
    case (Success r')
    then show ?thesis using "1.prems" by simp
  next
    case (TooManyRequests d g)
    show ?thesis
    proof (cases "maxRetry < Suc retries")
      case True
      then have "retries = maxRetry" using "1.prems"(1) by simp
      then show ?thesis using TooManyRequests by auto
    next
      case False
      then have le: "Suc retries \<le> maxRetry" by simp
      have "fst (request_loop maxRetry server (Suc retries)) = Inl RetryExhausted"
        using "1.prems"(2) TooManyRequests False by simp
      from "1.IH"(1) [OF TooManyRequests False le this] show ?thesis
        using TooManyRequests by (metis Suc_leI le_neq_implies_less retryable.simps(1))
    qed
  next
    case ServerError
    show ?thesis
    proof (cases "maxRetry < Suc retries")
      case True
      then have "retries = maxRetry" using "1.prems"(1) by simp
      then show ?thesis using ServerError by auto
    next
      case False
      then have le: "Suc retries \<le> maxRetry" by simp
      have "fst (request_loop maxRetry server (Suc retries)) = Inl RetryExhausted"
        using "1.prems"(2) ServerError False by simp
      from "1.IH"(2) [OF ServerError False le this] show ?thesis
        using ServerError by (metis Suc_leI le_neq_implies_less retryable.simps(2))
    qed
  next
    case (ClientError s b)
    then show ?thesis using "1.prems" by simp
  qed
qed

lemma request_loop_skips:
  "retries \<le> j \<Longrightarrow> j \<le> maxRetry \<Longrightarrow> (\<forall>i. retries \<le> i \<and> i < j \<longrightarrow> retryable (server i)) \<Longrightarrow>
     request_loop maxRetry server retries = request_loop maxRetry server j"
proof (induction maxRetry server retries rule: request_loop.induct)
  case (1 maxRetry server retries)
  show ?case
  proof (cases "retries = j")
    case True
    then show ?thesis by simp
  next
    case False
    then have lt: "retries < j" using "1.prems"(1) by simp
    then have r: "retryable (server retries)" using "1.prems"(3) by simp
    have nlt: "\<not> maxRetry < Suc retries" using lt "1.prems"(2) by simp
    have le: "Suc retries \<le> j" using lt by simp
    have all: "\<forall>i. Suc retries \<le> i \<and> i < j \<longrightarrow> retryable (server i)"
      using "1.prems"(3) by simp
    show ?thesis
    proof (cases "server retries")
      case (Success r')
      then show ?thesis using r by simp
    next
      case (TooManyRequests d g)
      from "1.IH"(1) [OF TooManyRequests nlt le "1.prems"(2) all] show ?thesis
        using TooManyRequests nlt by simp
    next
      case ServerError
      from "1.IH"(2) [OF ServerError nlt le "1.prems"(2) all] show ?thesis
        using ServerError nlt by simp
    next
      case (ClientError s b)
      then show ?thesis using r by simp
    qed
  qed
qed

text \<open>
  C3. A request whose every attempt is answered with a 429, a 5xx or a network error
  is sent \<open>maxRetry + 1\<close> times (the first attempt and \<open>maxRetry\<close> retries) and then
  fails with \<open>RetryExhausted\<close>; no request is ever sent more often. The caller sees
  \<open>RetryExhausted\<close> only in that case: when an attempt within the budget is answered
  otherwise, the earlier transient errors stay inside and the caller gets that
  attempt's result or \<open>APIError\<close>.
\<close>

theorem retry_exhausted:
  "((\<forall>i \<le> maxRetry. retryable (server i)) \<longrightarrow>
      request maxRetry server = (Inl RetryExhausted, Suc maxRetry))
   \<and> (fst (request maxRetry server) = Inl RetryExhausted \<longrightarrow>
      (\<forall>i \<le> maxRetry. retryable (server i)))
   \<and> snd (request maxRetry server) \<le> Suc maxRetry
   \<and> (j \<le> maxRetry \<and> (\<forall>i < j. retryable (server i)) \<and> server j = Success r \<longrightarrow>
      request maxRetry server = (Inr r, Suc j))
   \<and> (j' \<le> maxRetry \<and> (\<forall>i < j'. retryable (server i)) \<and> server j' = ClientError status b \<longrightarrow>
      request maxRetry server = (Inl (APIError status b), Suc j'))"
proof (intro conjI impI)
  assume "\<forall>i \<le> maxRetry. retryable (server i)"
  then show "request maxRetry server = (Inl RetryExhausted, Suc maxRetry)"
    unfolding request_def by (intro request_loop_exhausts) simp_all
next
  assume "fst (request maxRetry server) = Inl RetryExhausted"
  then show "\<forall>i \<le> maxRetry. retryable (server i)"
    unfolding request_def using request_loop_exhausted_only [of 0 maxRetry server] by simp
next
  show "snd (request maxRetry server) \<le> Suc maxRetry"
    unfolding request_def using request_loop_sent [of 0 maxRetry server] by simp
next
  assume a: "j \<le> maxRetry \<and> (\<forall>i < j. retryable (server i)) \<and> server j = Success r"
  then have "request_loop maxRetry server 0 = request_loop maxRetry server j"
    by (intro request_loop_skips) simp_all
  then show "request maxRetry server = (Inr r, Suc j)"
    using a by (simp add: request_def)
next
  assume a: "j' \<le> maxRetry \<and> (\<forall>i < j'. retryable (server i)) \<and> server j' = ClientError status b"
  then have "request_loop maxRetry server 0 = request_loop maxRetry server j'"
    by (intro request_loop_skips) simp_all
  then show "request maxRetry server = (Inl (APIError status b), Suc j')"
    using a by (simp add: request_def)
qed

theorem retry_exhausted_witness:
  "request 3 always_limited = (Inl RetryExhausted, 4)
   \<and> request 0 always_limited = (Inl RetryExhausted, 1)
   \<and> request 3 recovers_third = (Inr ''ok'', 3)
   \<and> request 1 recovers_third = (Inl RetryExhausted, 2)"
  using retry_exhausted [of 3 always_limited]
    retry_exhausted [of 0 always_limited]
    retry_exhausted [of 3 recovers_third 2 "''ok''"]
    retry_exhausted [of 1 recovers_third]
  by (simp add: request_def always_limited_def recovers_third_def)

end
